theory Spec2Isabelle
  imports Complex_Main "HOL-Library.Log_Nat"
begin

text \<open>
  The matching costs, the Hungarian matcher, the normalisation count of the loss and the
  panoptic assembly of \<open>modeling_maskformer.py\<close>, as functions over tensors of reals, and
  what the specification says about them.
\<close>

section \<open>Tensors\<close>

text \<open>
  A torch tensor is modelled by its shape and its elements in row-major order. The
  elements are reals: the costs are computed over the reals, without the rounding of
  float32, infinities or NaN. A tensor the program can hold is \<open>well_formed\<close>: it has as
  many elements as its shape says. Every raise of the source is a value of \<open>error\<close>.
\<close>

datatype error = ValueError | RuntimeError | IndexError | KeyError

record tensor =
  shape :: "nat list"
  data :: "real list"

definition well_formed :: "tensor \<Rightarrow> bool" where
  "well_formed t \<longleftrightarrow> length (data t) = prod_list (shape t)"

definition binary :: "tensor \<Rightarrow> bool" where
  \<comment> \<open>a mask of labels: 0 for the negative class and 1 for the positive class\<close>
  "binary t \<longleftrightarrow> list_all (\<lambda>x. x = 0 \<or> x = 1) (data t)"

definition elem2 :: "tensor \<Rightarrow> nat \<Rightarrow> nat \<Rightarrow> real" where
  \<comment> \<open>\<open>t[q, i]\<close> of a two-dimensional tensor\<close>
  "elem2 t q i = data t ! (q * (shape t ! 1) + i)"

definition tabulate2 :: "nat \<Rightarrow> nat \<Rightarrow> (nat \<Rightarrow> nat \<Rightarrow> real) \<Rightarrow> tensor" where
  \<comment> \<open>the \<open>n\<close> by \<open>m\<close> tensor whose element \<open>[q, t]\<close> is \<open>f q t\<close>\<close>
  "tabulate2 n m f = \<lparr>shape = [n, m], data = map (\<lambda>k. f (k div m) (k mod m)) [0..<n * m]\<rparr>"

definition map_t :: "(real \<Rightarrow> real) \<Rightarrow> tensor \<Rightarrow> tensor" where
  \<comment> \<open>an elementwise operation with a scalar: \<open>2 * t\<close>, \<open>t + 1\<close>, \<open>1 - t\<close>, \<open>t / hw\<close>\<close>
  "map_t f t = t\<lparr>data := map f (data t)\<rparr>"

definition zip_t :: "(real \<Rightarrow> real \<Rightarrow> real) \<Rightarrow> tensor \<Rightarrow> tensor \<Rightarrow> tensor" where
  \<comment> \<open>an elementwise operation of two tensors of one shape\<close>
  "zip_t f a b = a\<lparr>data := map2 f (data a) (data b)\<rparr>"

definition sigmoid :: "real \<Rightarrow> real" where
  "sigmoid x = 1 / (1 + exp (- x))"

definition flatten1 :: "tensor \<Rightarrow> error + tensor" where
  \<comment> \<open>\<open>t.flatten(1)\<close>: dimension 1 must exist\<close>
  "flatten1 t =
     (case shape t of
        n # d # ds \<Rightarrow> Inr (t\<lparr>shape := [n, prod_list (d # ds)]\<rparr>)
      | _ \<Rightarrow> Inl IndexError)"

definition einsum_nc_mc_nm :: "tensor \<Rightarrow> tensor \<Rightarrow> error + tensor" where
  \<comment> \<open>\<open>torch.einsum("nc,mc->nm", a, b)\<close>: both operands two-dimensional, with one \<open>c\<close>\<close>
  "einsum_nc_mc_nm a b =
     (case shape a of
        [n, c] \<Rightarrow>
          (case shape b of
             [m, c'] \<Rightarrow>
               if c = c'
               then Inr (tabulate2 n m (\<lambda>q t. \<Sum>i\<leftarrow>[0..<c]. elem2 a q i * elem2 b t i))
               else Inl RuntimeError
           | _ \<Rightarrow> Inl RuntimeError)
      | _ \<Rightarrow> Inl RuntimeError)"

definition sum_last :: "tensor \<Rightarrow> real list" where
  \<comment> \<open>\<open>t.sum(-1)\<close> of a two-dimensional tensor\<close>
  "sum_last t = map (\<lambda>q. \<Sum>i\<leftarrow>[0..<shape t ! 1]. elem2 t q i) [0..<shape t ! 0]"

definition outer_add :: "real list \<Rightarrow> real list \<Rightarrow> tensor" where
  \<comment> \<open>\<open>u[:, None] + v[None, :]\<close>, by broadcasting\<close>
  "outer_add u v = tabulate2 (length u) (length v) (\<lambda>q t. u ! q + v ! t)"

section \<open>Pairwise cost functions\<close>

definition pair_wise_dice_loss :: "tensor \<Rightarrow> tensor \<Rightarrow> error + tensor" where
  "pair_wise_dice_loss inputs labels =
     (case flatten1 (map_t sigmoid inputs) of
        Inl e \<Rightarrow> Inl e
      | Inr inputs' \<Rightarrow>
          (case einsum_nc_mc_nm inputs' labels of
             Inl e \<Rightarrow> Inl e
           | Inr dots \<Rightarrow>
               let numerator = map_t (\<lambda>x. 2 * x) dots;
                   denominator = outer_add (sum_last inputs') (sum_last labels)
               in Inr (map_t (\<lambda>x. 1 - x)
                         (zip_t (/) (map_t (\<lambda>x. x + 1) numerator)
                                    (map_t (\<lambda>x. x + 1) denominator)))))"

definition binary_cross_entropy_with_logits :: "real \<Rightarrow> real \<Rightarrow> real" where
  \<comment> \<open>torch's elementwise loss with \<open>reduction="none"\<close>\<close>
  "binary_cross_entropy_with_logits x y =
     - (y * ln (sigmoid x) + (1 - y) * ln (1 - sigmoid x))"

definition pair_wise_sigmoid_focal_loss ::
  "tensor \<Rightarrow> tensor \<Rightarrow> real \<Rightarrow> real \<Rightarrow> error + tensor" where
  "pair_wise_sigmoid_focal_loss inputs labels alpha gamma =
     (if alpha < 0 then Inl ValueError
      else
        (case shape inputs of
           n # hw # ds \<Rightarrow>
             let prob = map_t sigmoid inputs;
                 cross_entropy_loss_pos =
                   map_t (\<lambda>x. binary_cross_entropy_with_logits x 1) inputs;
                 focal_pos = zip_t (*) (map_t (\<lambda>p. (1 - p) powr gamma) prob)
                                       cross_entropy_loss_pos;
                 focal_pos = map_t (\<lambda>x. x * alpha) focal_pos;
                 cross_entropy_loss_neg =
                   map_t (\<lambda>x. binary_cross_entropy_with_logits x 0) inputs;
                 focal_neg = zip_t (*) (map_t (\<lambda>p. p powr gamma) prob)
                                       cross_entropy_loss_neg;
                 focal_neg = map_t (\<lambda>x. x * (1 - alpha)) focal_neg
             in (case einsum_nc_mc_nm focal_pos labels of
                   Inl e \<Rightarrow> Inl e
                 | Inr loss_pos \<Rightarrow>
                     (case einsum_nc_mc_nm focal_neg (map_t (\<lambda>y. 1 - y) labels) of
                        Inl e \<Rightarrow> Inl e
                      | Inr loss_neg \<Rightarrow>
                          Inr (map_t (\<lambda>x. x / real hw) (zip_t (+) loss_pos loss_neg))))
         | _ \<Rightarrow> Inl IndexError))"

text \<open>
  The two elementwise factors of the focal cost, \<open>focal_pos\<close> and \<open>focal_neg\<close> of the
  source after their scaling by \<open>alpha\<close> and \<open>1 - alpha\<close>, as functions of one logit.
\<close>

definition focal_pos_term :: "real \<Rightarrow> real \<Rightarrow> real \<Rightarrow> real" where
  "focal_pos_term alpha gamma x =
     (1 - sigmoid x) powr gamma * binary_cross_entropy_with_logits x 1 * alpha"

definition focal_neg_term :: "real \<Rightarrow> real \<Rightarrow> real \<Rightarrow> real" where
  "focal_neg_term alpha gamma x =
     sigmoid x powr gamma * binary_cross_entropy_with_logits x 0 * (1 - alpha)"

section \<open>Rounding to float32\<close>

text \<open>
  Some places of the source decide a comparison or an index by one float32 operation on
  values that the model holds exactly: the quotient of the two pixel counts of a query,
  the product of a mask probability and a score, the score threshold, and the index
  arithmetic of the nearest resampling. There the result is rounded as IEEE 754 binary32
  rounds it: to the nearest value with a 24 bit significand, ties to the even
  significand, with the subnormal numbers below \<open>2 ^ - 126\<close>. None of them can overflow.
\<close>

definition float32_exponent :: "real \<Rightarrow> int" where
  \<comment> \<open>the exponent \<open>e\<close> with \<open>2 ^ e \<le> |x| < 2 ^ (e + 1)\<close>, and \<open>- 126\<close> for the subnormal \<open>x\<close>;
      \<open>- \<lfloor>- y\<rfloor>\<close> is the ceiling of \<open>y\<close>\<close>
  "float32_exponent x =
     max (- 126) (if 1 \<le> \<bar>x\<bar> then bitlen \<lfloor>\<bar>x\<bar>\<rfloor> - 1
                  else - bitlen (- \<lfloor>- (1 / \<bar>x\<bar>)\<rfloor> - 1))"

definition pow2 :: "int \<Rightarrow> real" where
  "pow2 e = (if 0 \<le> e then 2 ^ nat e else 1 / 2 ^ nat (- e))"

definition round_half_even :: "real \<Rightarrow> int" where
  "round_half_even y =
     (let f = \<lfloor>y\<rfloor>
      in if y - of_int f < 1 / 2 then f
         else if 1 / 2 < y - of_int f then f + 1
         else if even f then f else f + 1)"

definition float32 :: "real \<Rightarrow> real" where
  "float32 x =
     (if x = 0 then 0
      else let q = pow2 (float32_exponent x - 23)
           in sgn x * of_int (round_half_even (\<bar>x\<bar> / q)) * q)"

section \<open>Iterating and indexing a tensor along its first dimension\<close>

definition unbind :: "tensor \<Rightarrow> tensor list" where
  \<comment> \<open>the sub-tensors \<open>t[0], t[1], ...\<close> that \<open>for x in t\<close> and \<open>zip\<close> iterate over\<close>
  "unbind t =
     (case shape t of
        [] \<Rightarrow> []
      | n # s \<Rightarrow>
          map (\<lambda>k. \<lparr>shape = s, data = take (prod_list s) (drop (k * prod_list s) (data t))\<rparr>)
            [0..<n])"

definition select :: "'a list \<Rightarrow> bool list \<Rightarrow> 'a list" where
  \<comment> \<open>\<open>xs[to_keep]\<close> with a boolean mask\<close>
  "select xs keep = map fst (filter snd (zip xs keep))"

definition index_bool :: "tensor \<Rightarrow> bool list \<Rightarrow> tensor" where
  \<comment> \<open>\<open>t[to_keep]\<close>: the sub-tensors along dimension 0 that the mask keeps\<close>
  "index_bool t keep =
     \<lparr>shape = length (select (unbind t) keep) # tl (shape t),
      data = concat (map data (select (unbind t) keep))\<rparr>"

fun argmax_from :: "nat \<Rightarrow> real \<Rightarrow> nat \<Rightarrow> real list \<Rightarrow> nat" where
  "argmax_from best v i [] = best"
| "argmax_from best v i (x # xs) =
     (if v < x then argmax_from i x (Suc i) xs else argmax_from best v (Suc i) xs)"

definition argmax :: "real list \<Rightarrow> nat" where
  \<comment> \<open>the index of the first maximal value, as torch documents it; never called on \<open>[]\<close>\<close>
  "argmax xs = (case xs of [] \<Rightarrow> 0 | x # xs' \<Rightarrow> argmax_from 0 x 1 xs')"

definition softmax :: "real list \<Rightarrow> real list" where
  "softmax xs = map (\<lambda>x. exp x / (\<Sum>y\<leftarrow>xs. exp y)) xs"

definition rows_last :: "tensor \<Rightarrow> real list list" where
  \<comment> \<open>the vectors along the last dimension, in order\<close>
  "rows_last t =
     (let c = last (shape t)
      in map (\<lambda>k. take c (drop (k * c) (data t))) [0..<prod_list (butlast (shape t))])"

section \<open>Panoptic assembly\<close>

text \<open>
  \<open>ClassSpec\<close> and the registry \<open>config.dataset_metadata.classes\<close> are declared outside the
  two source files; the registry is taken as a parameter, a table from class ids to
  specifications, and a class id it does not hold raises.
\<close>

record ClassSpec =
  is_thing :: bool
  label :: string

record PanopticSegmentationSegment =
  segment_id :: int
  category_id :: int
  segment_is_thing :: bool
  segment_label :: string

record panoptic_config =
  num_labels :: int
  classes :: "int \<rightharpoonup> ClassSpec"
  object_mask_threshold :: real
  overlap_mask_area_threshold :: real

record panoptic_output =
  segmentation :: "int list"
  segments :: "PanopticSegmentationSegment list"

text \<open>
  The \<open>[h, w]\<close> segmentation map is held in row-major order. The variables that the loop
  over the queries updates are the fields of \<open>assembly_state\<close>.
\<close>

record assembly_state =
  st_segmentation :: "int list"
  st_segments :: "PanopticSegmentationSegment list"
  current_segment_id :: int
  stuff_memory_list :: "int \<rightharpoonup> int"

definition remove_low_and_no_objects ::
  "panoptic_config \<Rightarrow> tensor \<Rightarrow> real list \<Rightarrow> int list
     \<Rightarrow> error + (tensor \<times> real list \<times> int list)" where
  \<comment> \<open>the float32 scores are compared with the threshold, a Python number, in float32\<close>
  "remove_low_and_no_objects cfg masks scores labels =
     (case shape masks of
        [] \<Rightarrow> Inl IndexError
      | n # s \<Rightarrow>
          if \<not> (n = length scores \<and> length scores = length labels) then Inl ValueError
          else
            let to_keep = map2 (\<lambda>l s. l \<noteq> num_labels cfg
                                         \<and> s > float32 (object_mask_threshold cfg))
                            labels scores
            in Inr (index_bool masks to_keep, select scores to_keep, select labels to_keep))"

definition mul_scores :: "tensor \<Rightarrow> real list \<Rightarrow> tensor" where
  \<comment> \<open>\<open>mask_probs *= pred_scores.view(-1, 1, 1)\<close>, a float32 product\<close>
  "mul_scores mask_probs pred_scores =
     mask_probs\<lparr>data := concat (map2 (\<lambda>m s. map (\<lambda>x. float32 (x * s)) (data m))
                                  (unbind mask_probs) pred_scores)\<rparr>"

definition argmax0 :: "tensor \<Rightarrow> nat list" where
  \<comment> \<open>\<open>mask_probs.argmax(0)\<close>: for every pixel, the query of the largest value\<close>
  "argmax0 mask_probs =
     map (\<lambda>p. argmax (map (\<lambda>m. data m ! p) (unbind mask_probs)))
       [0..<prod_list (tl (shape mask_probs))]"

definition mask_k_area :: "nat list \<Rightarrow> nat \<Rightarrow> nat" where
  \<comment> \<open>\<open>(mask_labels == k).sum()\<close>\<close>
  "mask_k_area mask_labels k = length (filter (\<lambda>l. l = k) mask_labels)"

definition original_area :: "tensor \<Rightarrow> nat \<Rightarrow> nat" where
  \<comment> \<open>\<open>(mask_probs[k] >= 0.5).sum()\<close>, on the tensor that \<open>mask_probs\<close> names at that line\<close>
  "original_area mask_probs k = length (filter (\<lambda>p. p \<ge> 1 / 2) (data (unbind mask_probs ! k)))"

definition segment_step ::
  "panoptic_config \<Rightarrow> tensor \<Rightarrow> nat list \<Rightarrow> int list \<Rightarrow> nat \<Rightarrow> assembly_state
     \<Rightarrow> error + assembly_state" where
  \<comment> \<open>one iteration of \<open>for k in range(pred_labels.shape[0])\<close>; \<open>mask_k_area / original_area\<close>
      divides two integer tensors: both become float32 and the quotient is a float32,
      which \<open>.item()\<close> hands to the comparison with the threshold unchanged\<close>
  "segment_step cfg mask_probs mask_labels pred_labels k st =
     (let pred_class = pred_labels ! k
      in case classes cfg pred_class of
           None \<Rightarrow> Inl KeyError
         | Some class_spec \<Rightarrow>
             let is_stuff = \<not> is_thing class_spec;
                 masks_do_exist =
                   (mask_k_area mask_labels k > 0 \<and> original_area mask_probs k > 0)
             in if masks_do_exist then
                  let area_ratio =
                        float32 (float32 (real (mask_k_area mask_labels k))
                                   / float32 (real (original_area mask_probs k)));
                      mask_k_is_overlapping_enough =
                        (area_ratio > overlap_mask_area_threshold cfg)
                  in if mask_k_is_overlapping_enough then
                       let cur = (case stuff_memory_list st pred_class of
                                    Some i \<Rightarrow> i
                                  | None \<Rightarrow> current_segment_id st + 1)
                       in Inr \<lparr>st_segmentation =
                                 map2 (\<lambda>l s. if l = k then cur else s)
                                   mask_labels (st_segmentation st),
                               st_segments = st_segments st @
                                 [\<lparr>segment_id = cur, category_id = pred_class,
                                   segment_is_thing = \<not> is_stuff,
                                   segment_label = label class_spec\<rparr>],
                               current_segment_id = cur,
                               stuff_memory_list =
                                 (if is_stuff then (stuff_memory_list st)(pred_class \<mapsto> cur)
                                  else stuff_memory_list st)\<rparr>
                     else Inr st
                else Inr st)"

fun segment_loop ::
  "panoptic_config \<Rightarrow> tensor \<Rightarrow> nat list \<Rightarrow> int list \<Rightarrow> nat list \<Rightarrow> assembly_state
     \<Rightarrow> error + assembly_state" where
  "segment_loop cfg mask_probs mask_labels pred_labels [] st = Inr st"
| "segment_loop cfg mask_probs mask_labels pred_labels (k # ks) st =
     (case segment_step cfg mask_probs mask_labels pred_labels k st of
        Inl e \<Rightarrow> Inl e
      | Inr st' \<Rightarrow> segment_loop cfg mask_probs mask_labels pred_labels ks st')"

definition initial_state :: "nat \<Rightarrow> nat \<Rightarrow> assembly_state" where
  \<comment> \<open>\<open>segmentation = torch.zeros((h, w))\<close>, \<open>segments = []\<close>, \<open>current_segment_id = 0\<close>,
      and the empty \<open>stuff_memory_list\<close>\<close>
  "initial_state h w =
     \<lparr>st_segmentation = replicate (h * w) 0, st_segments = [],
      current_segment_id = 0, stuff_memory_list = Map.empty\<rparr>"

definition panoptic_sample ::
  "panoptic_config \<Rightarrow> nat \<Rightarrow> nat \<Rightarrow> tensor \<Rightarrow> real list \<Rightarrow> int list
     \<Rightarrow> error + panoptic_output" where
  \<comment> \<open>the body of the loop over the batch, up to its \<open>return\<close>\<close>
  "panoptic_sample cfg h w mask_probs pred_scores pred_labels =
     (case remove_low_and_no_objects cfg mask_probs pred_scores pred_labels of
        Inl e \<Rightarrow> Inl e
      | Inr (mask_probs, pred_scores, pred_labels) \<Rightarrow>
          let we_detect_something = (hd (shape mask_probs) > 0);
              st = initial_state h w
          in if we_detect_something then
               let mask_probs = mul_scores mask_probs pred_scores;
                   mask_labels = argmax0 mask_probs
               in case segment_loop cfg mask_probs mask_labels pred_labels
                         [0..<length pred_labels] st of
                    Inl e \<Rightarrow> Inl e
                  | Inr st' \<Rightarrow>
                      Inr \<lparr>segmentation = st_segmentation st', segments = st_segments st'\<rparr>
             else Inr \<lparr>segmentation = st_segmentation st, segments = st_segments st\<rparr>)"

text \<open>
  The \<open>return\<close> is a statement of the body of \<open>for (mask_probs, pred_scores, pred_labels) in
  zip(...)\<close>: the first iteration ends the call, and with no sample the loop body never runs
  and the call returns \<open>None\<close>.
\<close>

definition panoptic_loop ::
  "panoptic_config \<Rightarrow> nat \<Rightarrow> nat \<Rightarrow> (tensor \<times> real list \<times> int list) list
     \<Rightarrow> error + panoptic_output option" where
  "panoptic_loop cfg h w samples =
     (case samples of
        [] \<Rightarrow> Inr None
      | (mask_probs, pred_scores, pred_labels) # rest \<Rightarrow>
          (case panoptic_sample cfg h w mask_probs pred_scores pred_labels of
             Inl e \<Rightarrow> Inl e
           | Inr out \<Rightarrow> Inr (Some out)))"

definition max_last :: "tensor \<Rightarrow> error + (real list \<times> int list) list" where
  \<comment> \<open>\<open>t.max(-1)\<close> of a \<open>[batch, queries, classes]\<close> tensor: for every sample the best
      score of each query and its index\<close>
  "max_last t =
     (if last (shape t) = 0 then Inl IndexError
      else Inr (map (\<lambda>s. (map Max (map set (rows_last s)),
                           map (\<lambda>r. int (argmax r)) (rows_last s)))
                  (unbind t)))"

definition softmax_last :: "tensor \<Rightarrow> tensor" where
  \<comment> \<open>\<open>F.softmax(t, dim=-1)\<close>\<close>
  "softmax_last t = t\<lparr>data := concat (map softmax (rows_last t))\<rparr>"

definition panoptic_forward ::
  "panoptic_config \<Rightarrow> tensor \<Rightarrow> tensor \<Rightarrow> error + panoptic_output option" where
  \<comment> \<open>\<open>MaskFormerForPanopticSegmentation.forward\<close>, from the outputs of the model on\<close>
  "panoptic_forward cfg preds_logits preds_masks =
     (case shape preds_masks of
        [b, q, h, w] \<Rightarrow>
          (case max_last (softmax_last preds_logits) of
             Inl e \<Rightarrow> Inl e
           | Inr scores_labels \<Rightarrow>
               let mask_probs = map_t sigmoid preds_masks
               in panoptic_loop cfg h w
                    (map2 (\<lambda>m (s, l). (m, s, l)) (unbind mask_probs) scores_labels))
      | _ \<Rightarrow> Inl ValueError)"

section \<open>The Hungarian matcher\<close>

record matcher_outputs =
  preds_logits :: tensor
  preds_masks :: tensor

text \<open>
  The targets of a batch: \<open>labels["pixel"]\<close> is the \<open>[batch, targets, H_gt, W_gt]\<close> tensor of
  the masks and \<open>labels["classes"]\<close> holds the class ids, one row per sample.
\<close>

record matcher_labels =
  labels_pixel :: tensor
  labels_classes :: "int list list"

record MaskFormerHungarianMatcher =
  cost_class :: real
  cost_mask :: real
  cost_dice :: real

definition new_matcher :: "real \<Rightarrow> real \<Rightarrow> real \<Rightarrow> error + MaskFormerHungarianMatcher" where
  \<comment> \<open>\<open>MaskFormerHungarianMatcher.__init__\<close>\<close>
  "new_matcher c m d =
     (if c = 0 \<and> m = 0 \<and> d = 0 then Inl ValueError
      else Inr \<lparr>cost_class = c, cost_mask = m, cost_dice = d\<rparr>)"

definition nearest_source_index :: "nat \<Rightarrow> nat \<Rightarrow> nat \<Rightarrow> nat" where
  \<comment> \<open>the input index that torch reads for the output index \<open>dst\<close>:
      \<open>min(floorf(dst * scale), input_size - 1)\<close> with the float \<open>scale = input_size / output_size\<close>,
      and no arithmetic when the size is kept or doubled\<close>
  "nearest_source_index dst input_size output_size =
     (if output_size = input_size then dst
      else if output_size = 2 * input_size then dst div 2
      else min (nat \<lfloor>float32 (float32 (real dst)
                       * float32 (float32 (real input_size) / float32 (real output_size)))\<rfloor>)
               (input_size - 1))"

definition interpolate_nearest :: "tensor \<Rightarrow> nat \<Rightarrow> nat \<Rightarrow> error + tensor" where
  \<comment> \<open>\<open>F.interpolate(t, size=(h, w), mode="nearest")\<close>: a four-dimensional tensor with at
      least one channel and positive sizes; the batch may be empty\<close>
  "interpolate_nearest t h w =
     (case shape t of
        [b, c, hin, win] \<Rightarrow>
          if c = 0 \<or> hin = 0 \<or> win = 0 \<or> h = 0 \<or> w = 0 then Inl RuntimeError
          else Inr \<lparr>shape = [b, c, h, w],
                    data = map (\<lambda>k. data t ! ((k div (h * w) * hin
                                                  + nearest_source_index (k div w mod h) hin h) * win
                                                 + nearest_source_index (k mod w) win w))
                             [0..<b * c * h * w]\<rparr>
      | _ \<Rightarrow> Inl ValueError)"

definition normalize_index :: "nat \<Rightarrow> int \<Rightarrow> error + nat" where
  \<comment> \<open>an index into a dimension of size \<open>n\<close>: negative indices count from the end\<close>
  "normalize_index n i =
     (if 0 \<le> i \<and> i < int n then Inr (nat i)
      else if - int n \<le> i \<and> i < 0 then Inr (nat (i + int n))
      else Inl IndexError)"

fun normalize_indices :: "nat \<Rightarrow> int list \<Rightarrow> error + nat list" where
  "normalize_indices n [] = Inr []"
| "normalize_indices n (i # is) =
     (case normalize_index n i of
        Inl e \<Rightarrow> Inl e
      | Inr j \<Rightarrow> (case normalize_indices n is of Inl e \<Rightarrow> Inl e | Inr js \<Rightarrow> Inr (j # js)))"

definition index_columns :: "tensor \<Rightarrow> int list \<Rightarrow> error + tensor" where
  \<comment> \<open>\<open>pred_probs[:, labels]\<close>\<close>
  "index_columns t labels =
     (case shape t of
        [q, c] \<Rightarrow>
          (case normalize_indices c labels of
             Inl e \<Rightarrow> Inl e
           | Inr js \<Rightarrow> Inr (tabulate2 q (length js) (\<lambda>i k. elem2 t i (js ! k))))
      | _ \<Rightarrow> Inl IndexError)"

definition rearrange_q_hw :: "tensor \<Rightarrow> error + tensor" where
  \<comment> \<open>\<open>rearrange(t, "q h w -> q (h w)")\<close>\<close>
  "rearrange_q_hw t =
     (case shape t of
        [q, h, w] \<Rightarrow> Inr (t\<lparr>shape := [q, h * w]\<rparr>)
      | _ \<Rightarrow> Inl RuntimeError)"

text \<open>
  Modelled from the spec: \<open>scipy.optimize.linear_sum_assignment\<close>, the solver that
  \<open>forward\<close> calls, is outside the source files. The spec asks for a solver of the
  rectangular linear assignment problem that minimises the sum of the costs and returns
  the matched pairs as two index arrays of length \<open>min(Q, T)\<close>, each prediction and each
  target used at most once, the order of the pairs unspecified. The model searches all
  one-to-one assignments of that size and returns one of least total cost.
\<close>

fun injections :: "nat \<Rightarrow> nat list \<Rightarrow> nat list list" where
  \<comment> \<open>Modelled from the spec: the lists of \<open>n\<close> different elements of \<open>xs\<close>\<close>
  "injections 0 xs = [[]]"
| "injections (Suc n) xs =
     concat (map (\<lambda>x. map ((#) x) (injections n (removeAll x xs))) xs)"

definition assignments :: "nat \<Rightarrow> nat \<Rightarrow> (nat \<times> nat) list list" where
  \<comment> \<open>Modelled from the spec: the one-to-one assignments of size \<open>min(Q, T)\<close>\<close>
  "assignments Q T =
     (if Q \<le> T then map (\<lambda>ts. zip [0..<Q] ts) (injections Q [0..<T])
      else map (\<lambda>qs. zip qs [0..<T]) (injections T [0..<Q]))"

definition total_cost :: "tensor \<Rightarrow> (nat \<times> nat) list \<Rightarrow> real" where
  \<comment> \<open>Modelled from the spec: the sum of the costs of the pairs of an assignment\<close>
  "total_cost c a = (\<Sum>(q, t)\<leftarrow>a. elem2 c q t)"

definition linear_sum_assignment :: "tensor \<Rightarrow> error + (nat list \<times> nat list)" where
  \<comment> \<open>Modelled from the spec: a minimum-cost one-to-one assignment of a two-dimensional
      cost matrix, as the pair of its row indices and its column indices\<close>
  "linear_sum_assignment c =
     (case shape c of
        [Q, T] \<Rightarrow>
          let best = arg_min_list (total_cost c) (assignments Q T)
          in Inr (map fst best, map snd best)
      | _ \<Rightarrow> Inl ValueError)"

definition match_sample ::
  "MaskFormerHungarianMatcher \<Rightarrow> tensor \<Rightarrow> tensor \<Rightarrow> tensor \<Rightarrow> int list
     \<Rightarrow> error + (nat list \<times> nat list)" where
  \<comment> \<open>the body of the loop over the batch in \<open>MaskFormerHungarianMatcher.forward\<close>\<close>
  "match_sample m pred_probs pred_mask target_mask labels =
     (case index_columns pred_probs labels of
        Inl e \<Rightarrow> Inl e
      | Inr probs \<Rightarrow>
     (let cost_class' = map_t uminus probs
      in case rearrange_q_hw pred_mask of
        Inl e \<Rightarrow> Inl e
      | Inr pred_mask_flat \<Rightarrow>
     (case rearrange_q_hw target_mask of
        Inl e \<Rightarrow> Inl e
      | Inr target_mask_flat \<Rightarrow>
     (case pair_wise_sigmoid_focal_loss pred_mask_flat target_mask_flat (1 / 4) 2 of
        Inl e \<Rightarrow> Inl e
      | Inr cost_mask' \<Rightarrow>
     (case pair_wise_dice_loss pred_mask_flat target_mask_flat of
        Inl e \<Rightarrow> Inl e
      | Inr cost_dice' \<Rightarrow>
          let cost_matrix =
                zip_t (+) (zip_t (+) (map_t (\<lambda>x. cost_mask m * x) cost_mask')
                                     (map_t (\<lambda>x. cost_class m * x) cost_class'))
                          (map_t (\<lambda>x. cost_dice m * x) cost_dice')
          in linear_sum_assignment cost_matrix)))))"

fun match_loop ::
  "MaskFormerHungarianMatcher \<Rightarrow> (tensor \<times> tensor \<times> tensor \<times> int list) list
     \<Rightarrow> error + (nat list \<times> nat list) list" where
  "match_loop m [] = Inr []"
| "match_loop m ((pred_probs, pred_mask, target_mask, labels) # rest) =
     (case match_sample m pred_probs pred_mask target_mask labels of
        Inl e \<Rightarrow> Inl e
      | Inr assigned_indices \<Rightarrow>
          (case match_loop m rest of
             Inl e \<Rightarrow> Inl e
           | Inr indices \<Rightarrow> Inr (assigned_indices # indices)))"

definition zip4 :: "'a list \<Rightarrow> 'b list \<Rightarrow> 'c list \<Rightarrow> 'd list \<Rightarrow> ('a \<times> 'b \<times> 'c \<times> 'd) list" where
  "zip4 as bs cs ds = zip as (zip bs (zip cs ds))"

definition matcher_forward ::
  "MaskFormerHungarianMatcher \<Rightarrow> matcher_outputs \<Rightarrow> matcher_labels
     \<Rightarrow> error + (nat list \<times> nat list) list" where
  \<comment> \<open>\<open>MaskFormerHungarianMatcher.forward\<close>\<close>
  "matcher_forward m outputs labels =
     (let preds_probs = softmax_last (preds_logits outputs)
      in case rev (shape (preds_masks outputs)) of
           w # h # _ \<Rightarrow>
             (case interpolate_nearest (labels_pixel labels) h w of
                Inl e \<Rightarrow> Inl e
              | Inr labels_masks \<Rightarrow>
                  match_loop m (zip4 (unbind preds_probs) (unbind (preds_masks outputs))
                                  (unbind labels_masks) (labels_classes labels)))
         | _ \<Rightarrow> Inl ValueError)"


section \<open>The normalisation count of the loss\<close>

text \<open>
  The distributed context is a collaborator: whether \<open>torch.distributed\<close> is available and
  initialised, the size of the worker group, and the counts that the other workers
  contribute to \<open>all_reduce\<close>, which sums the tensors of all workers. \<open>get_world_size\<close> is
  imported from \<open>detectron2.utils.comm\<close>, where it answers 1 when no process group is
  active.
\<close>

record dist_env =
  dist_is_available :: bool
  dist_is_initialized :: bool
  dist_world_size :: nat
  dist_peers :: "real list"

definition is_dist_avail_and_initialized :: "dist_env \<Rightarrow> bool" where
  "is_dist_avail_and_initialized env =
     (if \<not> dist_is_available env then False
      else if \<not> dist_is_initialized env then False
      else True)"

definition get_world_size :: "dist_env \<Rightarrow> nat" where
  "get_world_size env =
     (if \<not> dist_is_available env then 1
      else if \<not> dist_is_initialized env then 1
      else dist_world_size env)"

definition all_reduce :: "dist_env \<Rightarrow> real \<Rightarrow> real" where
  "all_reduce env x = x + sum_list (dist_peers env)"

definition get_num_masks :: "dist_env \<Rightarrow> matcher_labels \<Rightarrow> real" where
  \<comment> \<open>\<open>MaskFormerLoss.get_num_masks\<close>; \<open>.shape[0]\<close> of the class ids is the number of rows\<close>
  "get_num_masks env labels =
     (let num_masks = length (labels_classes labels);
          num_masks_pt = real num_masks;
          num_masks_pt = (if is_dist_avail_and_initialized env
                          then all_reduce env num_masks_pt else num_masks_pt)
      in max 1 (num_masks_pt / real (get_world_size env)))"

section \<open>Example inputs\<close>

definition example_config :: panoptic_config where
  \<comment> \<open>three classes, "sky" a stuff class; both thresholds at their default 0.8\<close>
  "example_config =
     \<lparr>num_labels = 3,
      classes = [0 \<mapsto> \<lparr>is_thing = False, label = ''sky''\<rparr>,
                 1 \<mapsto> \<lparr>is_thing = True, label = ''person''\<rparr>,
                 2 \<mapsto> \<lparr>is_thing = True, label = ''car''\<rparr>],
      object_mask_threshold = 4 / 5, overlap_mask_area_threshold = 4 / 5\<rparr>"

definition sky :: "int \<Rightarrow> PanopticSegmentationSegment" where
  "sky i = \<lparr>segment_id = i, category_id = 0, segment_is_thing = False, segment_label = ''sky''\<rparr>"

definition person :: "int \<Rightarrow> PanopticSegmentationSegment" where
  "person i =
     \<lparr>segment_id = i, category_id = 1, segment_is_thing = True, segment_label = ''person''\<rparr>"

definition car :: "int \<Rightarrow> PanopticSegmentationSegment" where
  "car i = \<lparr>segment_id = i, category_id = 2, segment_is_thing = True, segment_label = ''car''\<rparr>"

definition one_pixel :: "real \<Rightarrow> tensor" where
  \<comment> \<open>the mask probabilities of one query on a one by one image\<close>
  "one_pixel p = \<lparr>shape = [1, 1, 1], data = [p]\<rparr>"

definition two_regions :: tensor where
  \<comment> \<open>two queries on a one by two image, each confident on its own pixel\<close>
  "two_regions = \<lparr>shape = [2, 1, 2], data = [9 / 10, 1 / 10,  1 / 10, 9 / 10]\<rparr>"

definition five_pixels :: tensor where
  \<comment> \<open>two queries on a one by five image: the first is above 0.5 on all five pixels
      after the scaling and owns four of them\<close>
  "five_pixels =
     \<lparr>shape = [2, 1, 5],
      data = [7 / 8, 7 / 8, 7 / 8, 7 / 8, 3 / 4,   1 / 8, 1 / 8, 1 / 8, 1 / 8, 7 / 8]\<rparr>"

definition four_regions :: tensor where
  \<comment> \<open>four queries on a one by four image, each confident on its own pixel\<close>
  "four_regions =
     \<lparr>shape = [4, 1, 4],
      data = [9 / 10, 1 / 10, 1 / 10, 1 / 10,   1 / 10, 9 / 10, 1 / 10, 1 / 10,
              1 / 10, 1 / 10, 9 / 10, 1 / 10,   1 / 10, 1 / 10, 1 / 10, 9 / 10]\<rparr>"

definition no_dist :: dist_env where
  \<comment> \<open>a single process: no process group is initialised\<close>
  "no_dist = \<lparr>dist_is_available = True, dist_is_initialized = False,
              dist_world_size = 1, dist_peers = []\<rparr>"

definition three_targets :: matcher_labels where
  \<comment> \<open>a batch of one sample with three targets, on a one by one image\<close>
  "three_targets =
     \<lparr>labels_pixel = \<lparr>shape = [1, 3, 1, 1], data = [1, 0, 1]\<rparr>,
      labels_classes = [[0, 1, 2]]\<rparr>"




section \<open>Elements of the tensors built by the cost functions\<close>

lemma index_in_range:
  fixes q t n m :: nat
  assumes "q < n" and "t < m"
  shows "q * m + t < n * m"
proof -
  have "q * m + t < q * m + m" using assms(2) by simp
  also have "\<dots> = Suc q * m" by simp
  also have "\<dots> \<le> n * m" using assms(1) by (intro mult_le_mono1) simp
  finally show ?thesis .
qed

lemma elem2_tabulate2:
  assumes "q < n" and "t < m"
  shows "elem2 (tabulate2 n m f) q t = f q t"
proof -
  have "q * m + t < n * m" using assms by (rule index_in_range)
  then show ?thesis using assms by (simp add: elem2_def tabulate2_def)
qed

lemma map_t_tabulate2: "map_t g (tabulate2 n m f) = tabulate2 n m (\<lambda>q t. g (f q t))"
  by (simp add: map_t_def tabulate2_def comp_def)

lemma zip_t_tabulate2:
  "zip_t h (tabulate2 n m f) (tabulate2 n m g) = tabulate2 n m (\<lambda>q t. h (f q t) (g q t))"
  by (simp add: zip_t_def tabulate2_def map2_map_map)

lemma shape_tabulate2: "shape (tabulate2 n m f) = [n, m]"
  by (simp add: tabulate2_def)

lemma well_formed_tabulate2: "well_formed (tabulate2 n m f)"
  by (simp add: well_formed_def tabulate2_def)

lemma sum_list_upt: "(\<Sum>i\<leftarrow>[0..<c]. f i) = (\<Sum>i<c. f i)"
  by (simp add: interv_sum_list_conv_sum_set_nat atLeast0LessThan)

lemma elem2_map_t:
  assumes "well_formed a" and "shape a = [n, c]" and "q < n" and "i < c"
  shows "elem2 (map_t f a) q i = f (elem2 a q i)"
proof -
  have "q * c + i < n * c" using assms(3,4) by (rule index_in_range)
  then have "q * c + i < length (data a)" using assms(1,2) by (simp add: well_formed_def)
  then show ?thesis using assms(2) by (simp add: elem2_def map_t_def)
qed

lemma flatten1_2d: "shape a = [n, c] \<Longrightarrow> flatten1 a = Inr a"
  by (simp add: flatten1_def)

lemma shape_map_t: "shape (map_t f a) = shape a"
  by (simp add: map_t_def)

lemma well_formed_map_t: "well_formed (map_t f a) = well_formed a"
  by (simp add: map_t_def well_formed_def)

lemma einsum_2d:
  "shape a = [n, c] \<Longrightarrow> shape b = [m, c] \<Longrightarrow>
   einsum_nc_mc_nm a b = Inr (tabulate2 n m (\<lambda>q t. \<Sum>i\<leftarrow>[0..<c]. elem2 a q i * elem2 b t i))"
  by (simp add: einsum_nc_mc_nm_def)

lemma sum_last_nth:
  "shape a = [n, c] \<Longrightarrow> q < n \<Longrightarrow> sum_last a ! q = (\<Sum>i<c. elem2 a q i)"
  by (simp add: sum_last_def sum_list_upt)

lemma length_sum_last: "shape a = [n, c] \<Longrightarrow> length (sum_last a) = n"
  by (simp add: sum_last_def)

lemma pair_wise_dice_loss_elem:
  assumes wf: "well_formed inputs" and si: "shape inputs = [Q, W]" and sl: "shape labels = [T, W]"
  shows "\<exists>loss. pair_wise_dice_loss inputs labels = Inr loss \<and> shape loss = [Q, T] \<and> well_formed loss \<and>
     (\<forall>q<Q. \<forall>t<T. elem2 loss q t =
        1 - (2 * (\<Sum>i<W. sigmoid (elem2 inputs q i) * elem2 labels t i) + 1) /
          ((\<Sum>i<W. sigmoid (elem2 inputs q i)) + (\<Sum>i<W. elem2 labels t i) + 1))"
proof -
  let ?s = "map_t sigmoid inputs"
  let ?u = "sum_last ?s" and ?v = "sum_last labels"
  let ?f = "\<lambda>q t. 1 - (2 * (\<Sum>i\<leftarrow>[0..<W]. elem2 ?s q i * elem2 labels t i) + 1) / (?u ! q + ?v ! t + 1)"
  have ss: "shape ?s = [Q, W]" using si by (simp add: shape_map_t)
  have lu: "length ?u = Q" and lv: "length ?v = T"
    using ss sl by (simp_all add: length_sum_last)
  have eq: "pair_wise_dice_loss inputs labels = Inr (tabulate2 Q T ?f)"
    by (simp add: pair_wise_dice_loss_def flatten1_2d [OF ss] einsum_2d [OF ss sl]
        outer_add_def lu lv map_t_tabulate2 zip_t_tabulate2)
  have "elem2 (tabulate2 Q T ?f) q t =
        1 - (2 * (\<Sum>i<W. sigmoid (elem2 inputs q i) * elem2 labels t i) + 1) /
          ((\<Sum>i<W. sigmoid (elem2 inputs q i)) + (\<Sum>i<W. elem2 labels t i) + 1)"
    if "q < Q" and "t < T" for q t
  proof -
    have e: "elem2 ?s q i = sigmoid (elem2 inputs q i)" if "i < W" for i
      using wf si \<open>q < Q\<close> that by (rule elem2_map_t)
    show ?thesis
      using that e
      by (simp add: elem2_tabulate2 sum_last_nth [OF ss] sum_last_nth [OF sl] sum_list_upt)
  qed
  then show ?thesis using eq by (simp add: shape_tabulate2 well_formed_tabulate2)
qed





lemma sigmoid_zero: "sigmoid 0 = 1 / 2"
  by (simp add: sigmoid_def)


lemma map_t_map_t: "map_t f (map_t g a) = map_t (\<lambda>x. f (g x)) a"
  by (simp add: map_t_def comp_def)

lemma zip_t_map_t: "zip_t h (map_t f a) (map_t g a) = map_t (\<lambda>x. h (f x) (g x)) a"
  by (simp add: zip_t_def map_t_def map2_map_map)

lemma einsum_not_ValueError: "einsum_nc_mc_nm a b \<noteq> Inl ValueError"
  by (simp add: einsum_nc_mc_nm_def split: list.split)

lemma focal_ValueError_iff:
  "pair_wise_sigmoid_focal_loss inputs labels alpha gamma = Inl ValueError \<longleftrightarrow> alpha < 0"
  by (auto simp: pair_wise_sigmoid_focal_loss_def Let_def einsum_not_ValueError
      split: list.splits sum.splits)

lemma focal_elem:
  assumes "0 \<le> alpha" and wi: "well_formed inputs" and wl: "well_formed labels"
    and si: "shape inputs = [Q, W]" and sl: "shape labels = [T, W]"
  shows "\<exists>loss. pair_wise_sigmoid_focal_loss inputs labels alpha gamma = Inr loss \<and>
           shape loss = [Q, T] \<and> well_formed loss \<and>
           (\<forall>q<Q. \<forall>t<T. elem2 loss q t =
              ((\<Sum>i<W. focal_pos_term alpha gamma (elem2 inputs q i) * elem2 labels t i) +
               (\<Sum>i<W. focal_neg_term alpha gamma (elem2 inputs q i) * (1 - elem2 labels t i)))
              / real W)"
proof -
  let ?P = "map_t (focal_pos_term alpha gamma) inputs"
  let ?N = "map_t (focal_neg_term alpha gamma) inputs"
  let ?L = "map_t (\<lambda>y. 1 - y) labels"
  let ?f = "\<lambda>q t. ((\<Sum>i\<leftarrow>[0..<W]. elem2 ?P q i * elem2 labels t i) +
                   (\<Sum>i\<leftarrow>[0..<W]. elem2 ?N q i * elem2 ?L t i)) / real W"
  have sP: "shape ?P = [Q, W]" and sN: "shape ?N = [Q, W]" and sL: "shape ?L = [T, W]"
    using si sl by (simp_all add: shape_map_t)
  have eq: "pair_wise_sigmoid_focal_loss inputs labels alpha gamma = Inr (tabulate2 Q T ?f)"
    using \<open>0 \<le> alpha\<close>
    by (simp add: pair_wise_sigmoid_focal_loss_def si map_t_map_t zip_t_map_t
        focal_pos_term_def [abs_def] focal_neg_term_def [abs_def]
        einsum_2d [OF sP sl, unfolded focal_pos_term_def [abs_def]]
        einsum_2d [OF sN sL, unfolded focal_neg_term_def [abs_def]]
        zip_t_tabulate2 map_t_tabulate2)
  have "elem2 (tabulate2 Q T ?f) q t =
          ((\<Sum>i<W. focal_pos_term alpha gamma (elem2 inputs q i) * elem2 labels t i) +
           (\<Sum>i<W. focal_neg_term alpha gamma (elem2 inputs q i) * (1 - elem2 labels t i)))
          / real W"
    if "q < Q" and "t < T" for q t
  proof -
    have "elem2 ?P q i = focal_pos_term alpha gamma (elem2 inputs q i)"
      and "elem2 ?N q i = focal_neg_term alpha gamma (elem2 inputs q i)"
      and "elem2 ?L t i = 1 - elem2 labels t i" if "i < W" for i
      using wi wl si sl \<open>q < Q\<close> \<open>t < T\<close> that by (simp_all add: elem2_map_t)
    then show ?thesis using that by (simp add: elem2_tabulate2 sum_list_upt)
  qed
  then show ?thesis using eq by (simp add: shape_tabulate2 well_formed_tabulate2)
qed

lemma half_powr_two: "(1 / 2 :: real) powr 2 = 1 / 4"
  by (simp add: power2_eq_square)

lemma bce_zero: "binary_cross_entropy_with_logits 0 1 = ln 2"
  "binary_cross_entropy_with_logits 0 0 = ln 2"
  by (simp_all add: binary_cross_entropy_with_logits_def sigmoid_zero ln_div)

section \<open>The loops over the batch\<close>


lemma panoptic_loop_ignores_rest:
  "panoptic_loop cfg h w (s # rest) = panoptic_loop cfg h w [s]"
  by (simp add: panoptic_loop_def split: prod.splits)

lemma panoptic_forward_first_sample:
  assumes "shape masks = [b, q, h, w]"
    and "max_last (softmax_last logits) = Inr ((s, l) # rest)"
    and "unbind (map_t sigmoid masks) = m # ms"
  shows "panoptic_forward cfg logits masks =
           (case panoptic_sample cfg h w m s l of
              Inl e \<Rightarrow> Inl e
            | Inr out \<Rightarrow> Inr (Some out))"
  using assms by (simp add: panoptic_forward_def panoptic_loop_def)

lemma get_num_masks_eq:
  "get_num_masks env labels =
     (if dist_is_available env \<and> dist_is_initialized env
      then max 1 ((real (length (labels_classes labels)) + sum_list (dist_peers env))
                    / real (dist_world_size env))
      else max 1 (real (length (labels_classes labels))))"
  by (simp add: get_num_masks_def is_dist_avail_and_initialized_def get_world_size_def
      all_reduce_def)

section \<open>The float32 rounding\<close>

text \<open>
  \<open>float32_exponent\<close> is the binary exponent of its argument, held at \<open>- 126\<close> for the
  subnormal range, and \<open>round_half_even\<close> moves by at most one half. The quotient \<open>4 / 5\<close>
  of two pixel counts rounds to a float32 above \<open>0.8\<close>, so a query that keeps four of its
  five pixels passes a threshold of \<open>0.8\<close>; and resampling 26 rows to 22 reads row 12 for
  the output row 11, where the exact quotient \<open>11 * 26 / 22\<close> is 13. The last lemma is the
  reason why a bound that is strict over the reals need not hold of a float32 cost: one
  minus the ratio \<open>1 / (2 ^ 25 + 1)\<close> is, in float32, exactly one.
\<close>

lemma bitlen_eq:
  fixes n :: int
  assumes "2 ^ k \<le> n" and "n < 2 ^ Suc k"
  shows "bitlen n = int k + 1"
proof -
  have "(0::int) < 2 ^ k" by simp
  then have pos: "0 < n" using assms(1) by linarith
  from bitlen_bounds [OF pos]
  have lo: "2 ^ nat (bitlen n - 1) \<le> n" and hi: "n < 2 ^ nat (bitlen n)" by simp_all
  have "(2::int) ^ k < 2 ^ nat (bitlen n)" using assms(1) hi by linarith
  then have 1: "k < nat (bitlen n)" by simp
  have "(2::int) ^ nat (bitlen n - 1) < 2 ^ Suc k" using assms(2) lo by linarith
  then have 2: "nat (bitlen n - 1) < Suc k" by (simp del: power_Suc)
  show ?thesis using 1 2 by linarith
qed

lemma pow2_pos: "0 < pow2 e"
  by (simp add: pow2_def)

lemma float32_exponent_eq:
  assumes "pow2 e \<le> \<bar>x\<bar>" and "\<bar>x\<bar> < pow2 (e + 1)"
  shows "float32_exponent x = max (- 126) e"
proof (cases "1 \<le> \<bar>x\<bar>")
  case True
  have e: "0 \<le> e"
  proof (rule ccontr)
    assume "\<not> 0 \<le> e"
    then have "pow2 (e + 1) \<le> 1" by (auto simp: pow2_def)
    then show False using True assms(2) by linarith
  qed
  define k where "k = nat e"
  have p: "pow2 e = 2 ^ k" "pow2 (e + 1) = 2 ^ Suc k"
    using e by (simp_all add: pow2_def k_def nat_add_distrib)
  have "(2::int) ^ k \<le> \<lfloor>\<bar>x\<bar>\<rfloor>" using assms(1) p(1) by (simp add: le_floor_iff)
  moreover have "\<lfloor>\<bar>x\<bar>\<rfloor> < (2::int) ^ Suc k"
    using assms(2) p(2) by (simp add: floor_less_iff del: power_Suc)
  ultimately have "bitlen \<lfloor>\<bar>x\<bar>\<rfloor> = int k + 1" by (rule bitlen_eq)
  then show ?thesis using True e by (simp add: float32_exponent_def k_def)
next
  case False
  have e: "e < 0"
  proof (rule ccontr)
    assume "\<not> e < 0"
    then have "1 \<le> pow2 e" by (simp add: pow2_def)
    then show False using False assms(1) by linarith
  qed
  define j where "j = nat (- e) - 1"
  have je: "nat (- e) = Suc j" using e by (simp add: j_def)
  have p: "pow2 e = 1 / 2 ^ Suc j" "pow2 (e + 1) = 1 / 2 ^ j"
  proof -
    show "pow2 e = 1 / 2 ^ Suc j" using e je by (simp add: pow2_def)
    show "pow2 (e + 1) = 1 / 2 ^ j"
    proof (cases "e = - 1")
      case True
      then show ?thesis using je by (simp add: pow2_def)
    next
      case False
      then have "nat (- (e + 1)) = j" using e je by linarith
      then show ?thesis using e False by (simp add: pow2_def)
    qed
  qed
  have xpos: "0 < \<bar>x\<bar>" using assms(1) pow2_pos [of e] by linarith
  let ?y = "1 / \<bar>x\<bar>"
  have y1: "?y \<le> 2 ^ Suc j"
    using assms(1) xpos unfolding p(1) by (simp add: field_simps)
  have y2: "2 ^ j < ?y"
    using assms(2) xpos unfolding p(2) by (simp add: field_simps)
  let ?c = "- \<lfloor>- ?y\<rfloor>"
  have c: "?c = \<lceil>?y\<rceil>" by (simp add: ceiling_def)
  have "\<lceil>?y\<rceil> \<le> (2::int) ^ Suc j" using y1 by (simp add: ceiling_le_iff del: power_Suc)
  moreover have "(2::int) ^ j < \<lceil>?y\<rceil>" using y2 by (simp add: less_ceiling_iff)
  ultimately have "(2::int) ^ j \<le> ?c - 1" "?c - 1 < (2::int) ^ Suc j"
    unfolding c by linarith+
  then have "bitlen (?c - 1) = int j + 1" by (rule bitlen_eq)
  then show ?thesis using False e je by (simp add: float32_exponent_def)
qed

lemma float32_ratio_at_threshold: "4 / 5 < float32 (float32 4 / float32 5)"
  by code_simp

lemma round_half_even_near: "\<bar>of_int (round_half_even y) - y\<bar> \<le> 1 / 2"
  unfolding round_half_even_def Let_def by (auto; linarith)

lemma nearest_source_index_rounds: "nearest_source_index 11 26 22 = 12"
  by code_simp

lemma area_ratio_at_threshold_is_kept:
  "panoptic_sample example_config 1 5 five_pixels [7 / 8, 7 / 8] [1, 2]
     = Inr \<lparr>segmentation = [1, 1, 1, 1, 2], segments = [person 1, car 2]\<rparr>"
  by code_simp

lemma float32_one_minus_small_ratio:
  "float32 (1 - float32 (float32 1 / float32 (2 ^ 25 + 1))) = 1"
  by code_simp

section \<open>The assignment solver and the loop of the matcher\<close>


















lemma matcher_forward_without_targets:
  assumes "shape (preds_masks outputs) = [B, Q, H, W]"
    and "shape (labels_pixel labels) = [B, 0, Hg, Wg]"
  shows "matcher_forward m outputs labels = Inl RuntimeError"
  using assms by (simp add: matcher_forward_def interpolate_nearest_def)

section \<open>The pairwise dice cost\<close>

text \<open>
  Claim C7. For prediction mask logits \<open>inputs\<close> of \<open>Q\<close> rows and binary target masks
  \<open>labels\<close> of \<open>T\<close> rows, both of flattened width \<open>W\<close>, \<open>pair_wise_dice_loss\<close> returns
  a \<open>Q\<close> by \<open>T\<close> tensor whose entry \<open>(q, t)\<close> is one minus the quotient of twice the dot
  product of the sigmoid of row \<open>q\<close> with row \<open>t\<close>, plus one, by the sum of the sigmoid of
  row \<open>q\<close> plus the sum of row \<open>t\<close>, plus one.
\<close>

theorem pair_wise_dice_loss_formula:
  assumes "well_formed inputs" and "well_formed labels" and "binary labels"
    and "shape inputs = [Q, W]" and "shape labels = [T, W]"
  shows "\<exists>loss. pair_wise_dice_loss inputs labels = Inr loss \<and> shape loss = [Q, T] \<and>
           (\<forall>q<Q. \<forall>t<T. elem2 loss q t =
              1 - (2 * (\<Sum>i<W. sigmoid (elem2 inputs q i) * elem2 labels t i) + 1) /
                  ((\<Sum>i<W. sigmoid (elem2 inputs q i)) + (\<Sum>i<W. elem2 labels t i) + 1))"
  using pair_wise_dice_loss_elem [OF assms(1,4,5)] by blast

theorem pair_wise_dice_loss_formula_witness:
  "\<exists>loss. pair_wise_dice_loss \<lparr>shape = [1, 2], data = [0, 0]\<rparr> \<lparr>shape = [1, 2], data = [1, 0]\<rparr>
             = Inr loss \<and> shape loss = [1, 1] \<and> elem2 loss 0 0 = 1 / 3"
  using pair_wise_dice_loss_formula
    [of "\<lparr>shape = [1, 2], data = [0, 0]\<rparr>" "\<lparr>shape = [1, 2], data = [1, 0]\<rparr>" 1 2 1]
  by (simp add: well_formed_def binary_def elem2_def sigmoid_zero numeral_2_eq_2)



section \<open>The pairwise focal cost\<close>

text \<open>
  Claim C9. \<open>pair_wise_sigmoid_focal_loss\<close> raises \<open>ValueError\<close> exactly when \<open>alpha\<close> is
  negative. For \<open>alpha\<close> at least 0, predictions of shape \<open>[Q, W]\<close> and targets of shape
  \<open>[T, W]\<close> it returns a \<open>Q\<close> by \<open>T\<close> tensor without error, whose entry \<open>(q, t)\<close> is the
  sum over the pixels of the positive focal term times the target plus the negative focal
  term times one minus the target, divided by \<open>W\<close>. (The values are stated for a positive
  \<open>W\<close>: with no pixel torch divides zero by zero, which has no real value.)
\<close>

theorem pair_wise_sigmoid_focal_loss_alpha:
  "(pair_wise_sigmoid_focal_loss inputs labels alpha gamma = Inl ValueError \<longleftrightarrow> alpha < 0) \<and>
   (0 \<le> alpha \<and> well_formed inputs \<and> well_formed labels \<and>
    shape inputs = [Q, W] \<and> shape labels = [T, W] \<longrightarrow>
      (\<exists>loss. pair_wise_sigmoid_focal_loss inputs labels alpha gamma = Inr loss \<and>
         shape loss = [Q, T] \<and> well_formed loss \<and>
         (0 < W \<longrightarrow> (\<forall>q<Q. \<forall>t<T. elem2 loss q t =
            ((\<Sum>i<W. focal_pos_term alpha gamma (elem2 inputs q i) * elem2 labels t i) +
             (\<Sum>i<W. focal_neg_term alpha gamma (elem2 inputs q i) * (1 - elem2 labels t i)))
            / real W))))"
  using focal_ValueError_iff [of inputs labels alpha gamma]
    focal_elem [of alpha inputs labels Q W T gamma] by blast

theorem pair_wise_sigmoid_focal_loss_alpha_witness:
  "pair_wise_sigmoid_focal_loss \<lparr>shape = [1, 2], data = [0, 0]\<rparr>
      \<lparr>shape = [1, 2], data = [1, 0]\<rparr> (- 1) 2 = Inl ValueError \<and>
   (\<exists>loss. pair_wise_sigmoid_focal_loss \<lparr>shape = [1, 2], data = [0, 0]\<rparr>
      \<lparr>shape = [1, 2], data = [1, 0]\<rparr> (1 / 4) 2 = Inr loss \<and>
      shape loss = [1, 1] \<and> elem2 loss 0 0 = ln 2 / 8)"
  using pair_wise_sigmoid_focal_loss_alpha
      [of "\<lparr>shape = [1, 2], data = [0, 0]\<rparr>" "\<lparr>shape = [1, 2], data = [1, 0]\<rparr>" "- 1" 2 1 2 1]
    pair_wise_sigmoid_focal_loss_alpha
      [of "\<lparr>shape = [1, 2], data = [0, 0]\<rparr>" "\<lparr>shape = [1, 2], data = [1, 0]\<rparr>" "1 / 4" 2 1 2 1]
  by (auto simp add: well_formed_def elem2_def numeral_2_eq_2 focal_pos_term_def focal_neg_term_def
      sigmoid_zero half_powr_two bce_zero)

section \<open>Panoptic assembly: the area test\<close>

text \<open>
  Claim C2 says that \<open>original_area\<close> counts the pixels at which the mask probability of
  query \<open>k\<close>, before the scaling by the confidence score, is at least 0.5. The source
  scales \<open>mask_probs\<close> in place and reads \<open>mask_probs[k]\<close> afterwards, so the area it names
  "original" is taken from the scaled values. One query on one pixel, probability 0.6 and
  score 0.81: the probability is at least 0.5 and its count is 1, the scaled value 0.486
  is below 0.5, the source computes the area 0 and emits no segment for the query.
\<close>

theorem original_area_of_scaled_probabilities:
  "original_area (mul_scores (one_pixel (3 / 5)) [81 / 100]) 0 = 0 \<and>
   original_area (one_pixel (3 / 5)) 0 = 1 \<and>
   panoptic_sample example_config 1 1 (one_pixel (3 / 5)) [81 / 100] [0]
     = Inr \<lparr>segmentation = [0], segments = []\<rparr>"
  by code_simp

section \<open>Panoptic assembly: merging the regions of a stuff class\<close>

text \<open>
  Claim C3 says that two surviving queries of one stuff class, with regions that each
  pass the area test, give exactly one segment record for the class, whose id the
  segmentation map carries on both regions. The source reuses the id of the class and
  then appends a record as it does for a new segment. Two queries of the stuff class 0,
  each owning one pixel: the map carries id 1 on both pixels, and the segment list holds
  the record of segment 1 twice.
\<close>

theorem stuff_merging_appends_twice:
  "panoptic_sample example_config 1 2 two_regions [9 / 10, 9 / 10] [0, 0]
     = Inr \<lparr>segmentation = [1, 1], segments = [sky 1, sky 1]\<rparr> \<and>
   map category_id [sky 1, sky 1] = [0, 0]"
  by code_simp

section \<open>Panoptic assembly: segment ids\<close>

text \<open>
  Claim C4 says that newly allocated segment ids are 1, 2, 3, ... in strictly increasing
  order and that no id is given to two different segments. The source keeps the counter
  and the id of the current segment in one variable, so reusing the id of a stuff class
  sets the counter back. Four queries, each owning one pixel, of classes sky (stuff),
  person, sky, car: the person takes id 2, the second sky region reuses id 1, and the car
  is allocated id 2 again, the id of the person.
\<close>

theorem segment_id_collision:
  "panoptic_sample example_config 1 4 four_regions [9 / 10, 9 / 10, 9 / 10, 9 / 10] [0, 1, 0, 2]
     = Inr \<lparr>segmentation = [1, 2, 1, 2], segments = [sky 1, person 2, sky 1, car 2]\<rparr>"
proof -
  let ?S = "[9 / 10, 9 / 10, 9 / 10, 9 / 10 :: real]" and ?L = "[0, 1, 0, 2 :: int]"
  let ?a = "13589545 / 16777216 :: real" and ?b = "3019899 / 33554432 :: real"
  let ?M = "\<lparr>shape = [4, 1, 4],
             data = [?a, ?b, ?b, ?b,  ?b, ?a, ?b, ?b,  ?b, ?b, ?a, ?b,  ?b, ?b, ?b, ?a]\<rparr>"
  have f: "remove_low_and_no_objects example_config four_regions ?S ?L
             = Inr (four_regions, ?S, ?L)"
    by code_simp
  have m: "mul_scores four_regions ?S = ?M" by code_simp
  have a: "argmax0 ?M = [0, 1, 2, 3]" by code_simp
  have l: "(case segment_loop example_config ?M [0, 1, 2, 3] ?L [0..<length ?L]
                   (initial_state 1 4) of
              Inl e \<Rightarrow> Inl e
            | Inr st' \<Rightarrow> Inr \<lparr>segmentation = st_segmentation st', segments = st_segments st'\<rparr>)
           = Inr \<lparr>segmentation = [1, 2, 1, 2], segments = [sky 1, person 2, sky 1, car 2]\<rparr>"
    by code_simp
  have h: "0 < hd (shape four_regions)" by code_simp
  show ?thesis
    unfolding panoptic_sample_def f sum.case prod.case Let_def m a l using h by simp
qed

section \<open>Panoptic assembly: the batch\<close>

text \<open>
  Claim C6 says that the assembly runs once for each of the \<open>B\<close> samples of the batch
  and returns a segmentation map and a segment list for each. The \<open>return\<close> of the
  source is inside the loop over the batch. A batch of two samples, the second of which
  alone would give a person segment: the call returns the map and the list of the first
  sample only.
\<close>

theorem panoptic_loop_first_sample_only:
  "panoptic_loop example_config 1 1
     [(one_pixel (9 / 10), [9 / 10], [0]), (one_pixel (9 / 10), [9 / 10], [1])]
     = Inr (Some \<lparr>segmentation = [1], segments = [sky 1]\<rparr>) \<and>
   panoptic_sample example_config 1 1 (one_pixel (9 / 10)) [9 / 10] [1]
     = Inr \<lparr>segmentation = [1], segments = [person 1]\<rparr>"
  by code_simp

section \<open>The normalisation count\<close>

text \<open>
  Claim C5 says that \<open>num_masks\<close> is the total number of ground-truth targets over all
  samples, reduced over the worker group, clamped below at 1. The source takes
  \<open>shape[0]\<close> of the class ids, the number of samples. One sample with three targets and
  no process group: the count is 1, the number of targets is 3.
\<close>

theorem get_num_masks_counts_samples:
  "get_num_masks no_dist three_targets = 1 \<and>
   length (concat (labels_classes three_targets)) = 3"
  by code_simp

section \<open>The Hungarian matcher\<close>




end
